theory Spec2Isabelle
  imports Main
begin

section \<open>The configuration model of \<open>internal/core/config.go\<close>\<close>

text \<open>
  The Go package keeps one \<open>Config\<close> in memory, checks it with \<open>Validate\<close>, changes
  its package and program lists, and writes it to disk.  The embedding follows the
  source function by function.  A method with a pointer receiver takes the \<open>Config\<close>
  and returns the changed one; the file system is a state that every operation takes and
  returns; a Go \<open>error\<close> result is an \<open>error option\<close>, with \<open>None\<close> for \<open>nil\<close>.
  \<open>UserFlakeDir\<close> and \<open>Clone\<close>, which only join paths and run \<open>git\<close>, are left out.
\<close>

subsection \<open>Package-level lists\<close>

definition operatingSystems :: "string list" where
  "operatingSystems = [''linux'', ''darwin'']"

definition architectures :: "string list" where
  "architectures = [''aarch64'', ''x86_64'']"

definition shells :: "string list" where
  "shells = [''bash'', ''zsh'']"

definition blingLevels :: "string list" where
  "blingLevels = [''low'', ''default'', ''high'']"

subsection \<open>Structs\<close>

record GitConfig =
  GitConfig_Name :: string
  GitConfig_Email :: string

record System =
  Hostname :: string
  Username :: string
  Arch :: string
  OS :: string
  GitConfig :: GitConfig

record Config =
  FlakeDir :: string
  Unfree :: bool
  Shell :: string
  Bling :: string
  Repository :: string
  Name :: string
  Packages :: "string list"
  Programs :: "string list"
  Aliases :: "string \<rightharpoonup> string"
  Paths :: "string list"
  Ejected :: bool
  Systems :: "System list"

subsection \<open>Errors\<close>

text \<open>
  The package-level error values, the error built in \<open>WriteSampleConfig\<close> by
  \<open>errors.New\<close> (\<open>ErrRefuseOverwrite\<close>) and by \<open>fmt.Errorf\<close>
  (\<open>ErrMakingFlakeDir\<close>, which formats the cause with \<open>%s\<close> and so does not wrap
  it), and the errors of the operating system and of the libraries.  \<open>ErrNotExist\<close>
  stands for every error \<open>err\<close> with \<open>errors.Is(err, fs.ErrNotExist)\<close>;
  \<open>ExternalError\<close> carries the message of any other one.
\<close>

datatype error =
    ErrMissingFlakeDir
  | ErrInvalidShell
  | ErrInvalidBling
  | ErrorInvalidArch
  | ErrInvalidOperatingSystem
  | ErrPackageNotFound
  | ErrProgramNotFound
  | ErrRefuseOverwrite
  | ErrMakingFlakeDir error
  | ErrNotExist
  | ExternalError string

fun errors_Is :: "error option \<Rightarrow> error \<Rightarrow> bool" where
  "errors_Is None target = False"
| "errors_Is (Some err) target = (err = target)"

subsection \<open>The environment\<close>

text \<open>
  What the file calls and does not define.  \<open>Location\<close> and \<open>MakeFlakeDir\<close> are
  methods of \<open>Config\<close>, and \<open>Username\<close>, \<open>Hostname\<close> and \<open>Arch\<close> functions of the
  package, all declared in other files of the repository; the rest is the Go runtime,
  the standard library and the YAML library.  Each is a parameter, so every theorem
  holds whatever these do.  \<open>'fs\<close> is the state of the file system, \<open>'m\<close> the untyped
  \<open>map[interface{}]interface{}\<close> that the YAML text is read back into.  A call that can
  change the file system returns its error together with the new state; an open file is
  known by its path.
\<close>

record ('fs, 'm) env =
  cfg_Location :: "Config \<Rightarrow> error + string"
  cfg_MakeFlakeDir :: "Config \<Rightarrow> 'fs \<Rightarrow> error option \<times> 'fs"
  core_Username :: "error + string"
  core_Hostname :: "error + string"
  core_Arch :: string
  runtime_GOOS :: string
  os_UserHomeDir :: "error + string"
  filepath_Join :: "string \<Rightarrow> string \<Rightarrow> string"
  yaml_Marshal :: "Config \<Rightarrow> error + string"
  yaml_Unmarshal :: "string \<Rightarrow> error + 'm"
  yaml_MarshalMap :: "'m \<Rightarrow> error + string"
  yaml_UnmarshalConfig :: "string \<Rightarrow> Config \<Rightarrow> error option \<times> Config"
  os_Create :: "string \<Rightarrow> 'fs \<Rightarrow> error option \<times> 'fs"
  file_WriteString :: "string \<Rightarrow> string \<Rightarrow> 'fs \<Rightarrow> error option \<times> 'fs"
  os_WriteFile :: "string \<Rightarrow> string \<Rightarrow> nat \<Rightarrow> 'fs \<Rightarrow> error option \<times> 'fs"
  os_Stat :: "string \<Rightarrow> 'fs \<Rightarrow> error option"
  os_Symlink :: "string \<Rightarrow> string \<Rightarrow> 'fs \<Rightarrow> error option \<times> 'fs"
  os_ReadFile :: "string \<Rightarrow> 'fs \<Rightarrow> error + string"

subsection \<open>System\<close>

definition HomeDir :: "System \<Rightarrow> string" where
  "HomeDir s =
     (let base = ''/home'';
          base = (if OS s = ''darwin'' then ''/Users'' else base)
      in base @ ''/'' @ Username s)"

definition NewSystem :: "('fs, 'm) env \<Rightarrow> string \<Rightarrow> string \<Rightarrow> error + System" where
  "NewSystem e name email =
     (case core_Username e of
        Inl err \<Rightarrow> Inl err
      | Inr user \<Rightarrow>
          (case core_Hostname e of
             Inl err \<Rightarrow> Inl err
           | Inr host \<Rightarrow>
               Inr \<lparr>Hostname = host, Username = user, Arch = core_Arch e,
                    OS = runtime_GOOS e,
                    GitConfig = \<lparr>GitConfig_Name = name, GitConfig_Email = email\<rparr>\<rparr>))"

subsection \<open>Validation\<close>

fun isValueInList :: "string \<Rightarrow> string list \<Rightarrow> bool" where
  "isValueInList val [] = False"
| "isValueInList val (v # list) = (if v = val then True else isValueInList val list)"

text \<open>The loop of \<open>Validate\<close> over \<open>c.Systems\<close>.\<close>

fun Validate_systems :: "System list \<Rightarrow> error option" where
  "Validate_systems [] = None"
| "Validate_systems (sys # rest) =
     (if \<not> isValueInList (Arch sys) architectures then Some ErrorInvalidArch
      else if \<not> isValueInList (OS sys) operatingSystems then Some ErrInvalidOperatingSystem
      else Validate_systems rest)"

definition Validate :: "Config \<Rightarrow> error option" where
  "Validate c =
     (if FlakeDir c = [] then Some ErrMissingFlakeDir
      else if \<not> isValueInList (Shell c) shells then Some ErrInvalidShell
      else if \<not> isValueInList (Bling c) blingLevels then Some ErrInvalidBling
      else Validate_systems (Systems c))"

subsection \<open>Persistence\<close>

text \<open>
  \<open>Save\<close>, \<open>WriteSampleConfig\<close> and \<open>Eject\<close> each spell out the same three calls:
  \<open>yaml.Marshal\<close> of the configuration, \<open>yaml.Unmarshal\<close> of that text into an untyped
  map, \<open>yaml.Marshal\<close> of the map.  None of them touches the file system, and each
  returns at its first error.
\<close>

definition marshal_unmarshal_marshal :: "('fs, 'm) env \<Rightarrow> Config \<Rightarrow> error + string" where
  "marshal_unmarshal_marshal e c =
     (case yaml_Marshal e c of
        Inl err \<Rightarrow> Inl err
      | Inr bb \<Rightarrow>
          (case yaml_Unmarshal e bb of
             Inl err \<Rightarrow> Inl err
           | Inr m \<Rightarrow>
               (case yaml_MarshalMap e m of
                  Inl err \<Rightarrow> Inl err
                | Inr n \<Rightarrow> Inr n)))"

text \<open>\<open>Save\<close> creates (and so truncates) the file before it serialises.\<close>

definition Save :: "('fs, 'm) env \<Rightarrow> Config \<Rightarrow> 'fs \<Rightarrow> error option \<times> 'fs" where
  "Save e c fs =
     (case cfg_Location e c of
        Inl err \<Rightarrow> (Some err, fs)
      | Inr cfile \<Rightarrow>
          (case os_Create e cfile fs of
             (Some err, fs1) \<Rightarrow> (Some err, fs1)
           | (None, fs1) \<Rightarrow>
               (case marshal_unmarshal_marshal e c of
                  Inl err \<Rightarrow> (Some err, fs1)
                | Inr sbb \<Rightarrow>
                    (case file_WriteString e cfile sbb fs1 of
                       (Some err, fs2) \<Rightarrow> (Some err, fs2)
                     | (None, fs2) \<Rightarrow> (None, fs2)))))"

subsection \<open>Mutation operations\<close>

text \<open>
  The search loop of \<open>AddPackage\<close>: \<open>found\<close> starts \<open>false\<close> and the loop breaks at
  the first equal element.
\<close>

fun range_found :: "string list \<Rightarrow> string \<Rightarrow> bool" where
  "range_found [] pack = False"
| "range_found (p # ps) pack = (if p = pack then True else range_found ps pack)"

text \<open>
  The search loop of \<open>RemovePackage\<close> and \<open>RemoveProgram\<close>, from position \<open>x\<close> on:
  \<open>index\<close> and \<open>found\<close> start at their zero values and are set at the first equal
  element, where the loop breaks.
\<close>

fun range_index :: "string list \<Rightarrow> string \<Rightarrow> nat \<Rightarrow> nat \<times> bool" where
  "range_index [] pack x = (0, False)"
| "range_index (p # ps) pack x = (if p = pack then (x, True) else range_index ps pack (Suc x))"

text \<open>
  \<open>append(s[:index], s[index+1:]...)\<close>, for \<open>index < len(s)\<close> (the only way the
  source calls it, so neither slice expression panics).
\<close>

definition delete_at :: "nat \<Rightarrow> string list \<Rightarrow> string list" where
  "delete_at index s = take index s @ drop (index + 1) s"

definition AddPackage ::
  "('fs, 'm) env \<Rightarrow> string \<Rightarrow> Config \<Rightarrow> 'fs \<Rightarrow> error option \<times> Config \<times> 'fs" where
  "AddPackage e pack c fs =
     (let found = range_found (Packages c) pack in
      if found then (None, c, fs)
      else
        (let c1 = c\<lparr>Packages := Packages c @ [pack]\<rparr> in
         case Validate c1 of
           Some err \<Rightarrow> (Some err, c1, fs)
         | None \<Rightarrow> (case Save e c1 fs of (r, fs1) \<Rightarrow> (r, c1, fs1))))"

definition RemovePackage ::
  "('fs, 'm) env \<Rightarrow> string \<Rightarrow> Config \<Rightarrow> 'fs \<Rightarrow> error option \<times> Config \<times> 'fs" where
  "RemovePackage e pack c fs =
     (case range_index (Packages c) pack 0 of
        (index, found) \<Rightarrow>
          if found then
            (let c1 = c\<lparr>Packages := delete_at index (Packages c)\<rparr> in
             case Validate c1 of
               Some err \<Rightarrow> (Some err, c1, fs)
             | None \<Rightarrow> (case Save e c1 fs of (r, fs1) \<Rightarrow> (r, c1, fs1)))
          else (Some ErrPackageNotFound, c, fs))"

definition RemoveProgram ::
  "('fs, 'm) env \<Rightarrow> string \<Rightarrow> Config \<Rightarrow> 'fs \<Rightarrow> error option \<times> Config \<times> 'fs" where
  "RemoveProgram e prog c fs =
     (case range_index (Programs c) prog 0 of
        (index, found) \<Rightarrow>
          if found then
            (let c1 = c\<lparr>Programs := delete_at index (Programs c)\<rparr> in
             case Validate c1 of
               Some err \<Rightarrow> (Some err, c1, fs)
             | None \<Rightarrow> (case Save e c1 fs of (r, fs1) \<Rightarrow> (r, c1, fs1)))
          else (Some ErrProgramNotFound, c, fs))"

definition AddProgram ::
  "('fs, 'm) env \<Rightarrow> string \<Rightarrow> Config \<Rightarrow> 'fs \<Rightarrow> error option \<times> Config \<times> 'fs" where
  "AddProgram e prog c fs =
     (let c1 = c\<lparr>Programs := Programs c @ [prog]\<rparr> in
      case Validate c1 of
        Some err \<Rightarrow> (Some err, c1, fs)
      | None \<Rightarrow> (case Save e c1 fs of (r, fs1) \<Rightarrow> (r, c1, fs1)))"

subsection \<open>Bootstrap and eject\<close>

text \<open>The literal \<open>Config\<close> that \<open>WriteSampleConfig\<close> builds.\<close>

definition sample_Config :: "string \<Rightarrow> System \<Rightarrow> Config" where
  "sample_Config location sys =
     \<lparr>FlakeDir = location, Unfree = True, Shell = ''bash'', Bling = ''default'',
      Repository = [], Name = ''My Fleek Configuration'',
      Packages = [''helix''], Programs = [''dircolors''],
      Aliases = [''cdfleek'' \<mapsto> ''cd ~/.config/home-manager''],
      Paths = [''$HOME/bin'', ''$HOME/.local/bin''],
      Ejected = False, Systems = [sys]\<rparr>"

text \<open>
  \<open>debug.Log\<close> only prints and is left out.  \<open>os.Stat\<close> is called after
  \<open>MakeFlakeDir\<close>, on the file system that call left.
\<close>

definition WriteSampleConfig ::
  "('fs, 'm) env \<Rightarrow> string \<Rightarrow> string \<Rightarrow> string \<Rightarrow> bool \<Rightarrow> 'fs \<Rightarrow> error option \<times> 'fs" where
  "WriteSampleConfig e location email name force fs =
     (case NewSystem e name email of
        Inl err \<Rightarrow> (Some err, fs)
      | Inr sys \<Rightarrow>
          (let c = sample_Config location sys in
           case cfg_Location e c of
             Inl err \<Rightarrow> (Some err, fs)
           | Inr cfile \<Rightarrow>
               (case cfg_MakeFlakeDir e c fs of
                  (Some err, fs1) \<Rightarrow> (Some (ErrMakingFlakeDir err), fs1)
                | (None, fs1) \<Rightarrow>
                    (let err = os_Stat e cfile fs1 in
                     if force \<or> errors_Is err ErrNotExist then
                       (case os_Create e cfile fs1 of
                          (Some err, fs2) \<Rightarrow> (Some err, fs2)
                        | (None, fs2) \<Rightarrow>
                            (case marshal_unmarshal_marshal e c of
                               Inl err \<Rightarrow> (Some err, fs2)
                             | Inr sbb \<Rightarrow>
                                 (case file_WriteString e cfile sbb fs2 of
                                    (Some err, fs3) \<Rightarrow> (Some err, fs3)
                                  | (None, fs3) \<Rightarrow>
                                      (case os_UserHomeDir e of
                                         Inl err \<Rightarrow> (Some err, fs3)
                                       | Inr home \<Rightarrow>
                                           (let csym = filepath_Join e home ''.fleek.yml'' in
                                            case os_Symlink e cfile csym fs3 of
                                              (Some err, fs4) \<Rightarrow> (Some err, fs4)
                                            | (None, fs4) \<Rightarrow> (None, fs4))))))
                     else (Some ErrRefuseOverwrite, fs1)))))"

text \<open>\<open>0755\<close> is the octal file mode passed to \<open>os.WriteFile\<close>.\<close>

definition Eject ::
  "('fs, 'm) env \<Rightarrow> Config \<Rightarrow> 'fs \<Rightarrow> error option \<times> Config \<times> 'fs" where
  "Eject e c fs =
     (let c1 = c\<lparr>Ejected := True\<rparr> in
      case cfg_Location e c1 of
        Inl err \<Rightarrow> (Some err, c1, fs)
      | Inr cfile \<Rightarrow>
          (case marshal_unmarshal_marshal e c1 of
             Inl err \<Rightarrow> (Some err, c1, fs)
           | Inr n \<Rightarrow>
               (case os_WriteFile e cfile n 493 fs of
                  (Some err, fs1) \<Rightarrow> (Some err, c1, fs1)
                | (None, fs1) \<Rightarrow> (None, c1, fs1))))"

subsection \<open>Reading the configuration\<close>

text \<open>
  \<open>ReadConfig\<close> starts from the zero \<open>Config\<close> and returns it, as far as it was
  filled, together with the error.
\<close>

definition zero_Config :: Config where
  "zero_Config =
     \<lparr>FlakeDir = [], Unfree = False, Shell = [], Bling = [], Repository = [], Name = [],
      Packages = [], Programs = [], Aliases = Map.empty, Paths = [], Ejected = False,
      Systems = []\<rparr>"

definition ReadConfig :: "('fs, 'm) env \<Rightarrow> 'fs \<Rightarrow> Config \<times> error option" where
  "ReadConfig e fs =
     (let c = zero_Config in
      case os_UserHomeDir e of
        Inl err \<Rightarrow> (c, Some err)
      | Inr home \<Rightarrow>
          (let csym = filepath_Join e home ''.fleek.yml'' in
           case os_ReadFile e csym fs of
             Inl err \<Rightarrow> (c, Some err)
           | Inr bb \<Rightarrow>
               (case yaml_UnmarshalConfig e bb c of
                  (Some err, c1) \<Rightarrow> (c1, Some err)
                | (None, c1) \<Rightarrow> (c1, None))))"

section \<open>Vocabulary of the properties\<close>

text \<open>The three components of what a method with a pointer receiver returns.\<close>

definition err_after :: "error option \<times> Config \<times> 'fs \<Rightarrow> error option" where
  "err_after r = fst r"

definition cfg_after :: "error option \<times> Config \<times> 'fs \<Rightarrow> Config" where
  "cfg_after r = fst (snd r)"

definition fs_after :: "error option \<times> Config \<times> 'fs \<Rightarrow> 'fs" where
  "fs_after r = snd (snd r)"

text \<open>
  Two calls in a row on the same \<open>Config\<close> object: the second works on what the
  first left behind, whatever the first returned.
\<close>

definition AddPackage_twice ::
  "('fs, 'm) env \<Rightarrow> string \<Rightarrow> Config \<Rightarrow> 'fs \<Rightarrow> error option \<times> Config \<times> 'fs" where
  "AddPackage_twice e pack c fs =
     (case AddPackage e pack c fs of (r1, c1, fs1) \<Rightarrow> AddPackage e pack c1 fs1)"

definition AddProgram_twice ::
  "('fs, 'm) env \<Rightarrow> string \<Rightarrow> Config \<Rightarrow> 'fs \<Rightarrow> error option \<times> Config \<times> 'fs" where
  "AddProgram_twice e prog c fs =
     (case AddProgram e prog c fs of (r1, c1, fs1) \<Rightarrow> AddProgram e prog c1 fs1)"

text \<open>The well-formedness conditions in the words of the specification.\<close>

definition valid_System :: "System \<Rightarrow> bool" where
  "valid_System sys \<longleftrightarrow>
     Arch sys \<in> {''aarch64'', ''x86_64''} \<and> OS sys \<in> {''linux'', ''darwin''}"

definition valid_Config :: "Config \<Rightarrow> bool" where
  "valid_Config c \<longleftrightarrow>
     FlakeDir c \<noteq> [] \<and> Shell c \<in> {''bash'', ''zsh''} \<and>
     Bling c \<in> {''low'', ''default'', ''high''} \<and>
     list_all valid_System (Systems c)"

section \<open>A concrete environment\<close>

text \<open>
  An in-memory file system, a map from paths to contents, and an environment over it in
  which every call succeeds.  The operations are run in it on concrete configurations.
  A symbolic link is kept as a file whose content names the target.
\<close>

definition render :: "Config \<Rightarrow> string" where
  "render c =
     ''shell: '' @ Shell c @ '' packages:'' @ concat (map (\<lambda>p. '' - '' @ p) (Packages c))
       @ '' programs:'' @ concat (map (\<lambda>p. '' - '' @ p) (Programs c))
       @ '' ejected: '' @ (if Ejected c then ''true'' else ''false'')"

definition mem_env :: "(string \<rightharpoonup> string, string) env" where
  "mem_env =
     \<lparr>cfg_Location = (\<lambda>c. Inr (''/home/jane/'' @ FlakeDir c @ ''/.fleek.yml'')),
      cfg_MakeFlakeDir = (\<lambda>c fs. (None, fs)),
      core_Username = Inr ''jane'',
      core_Hostname = Inr ''box'',
      core_Arch = ''x86_64'',
      runtime_GOOS = ''linux'',
      os_UserHomeDir = Inr ''/home/jane'',
      filepath_Join = (\<lambda>a b. a @ ''/'' @ b),
      yaml_Marshal = (\<lambda>c. Inr (render c)),
      yaml_Unmarshal = (\<lambda>bb. Inr bb),
      yaml_MarshalMap = (\<lambda>m. Inr m),
      yaml_UnmarshalConfig = (\<lambda>bb c. (None, c)),
      os_Create = (\<lambda>p fs. (None, fs(p \<mapsto> []))),
      file_WriteString =
        (\<lambda>p s fs. (None, fs(p \<mapsto> (case fs p of None \<Rightarrow> [] | Some old \<Rightarrow> old) @ s))),
      os_WriteFile = (\<lambda>p s perm fs. (None, fs(p \<mapsto> s))),
      os_Stat = (\<lambda>p fs. if fs p = None then Some ErrNotExist else None),
      os_Symlink =
        (\<lambda>old new fs.
           if fs new = None then (None, fs(new \<mapsto> ''-> '' @ old))
           else (Some (ExternalError ''file exists''), fs)),
      os_ReadFile = (\<lambda>p fs. case fs p of None \<Rightarrow> Inl ErrNotExist | Some s \<Rightarrow> Inr s)\<rparr>"

definition jane_linux :: System where
  "jane_linux =
     \<lparr>Hostname = ''box'', Username = ''jane'', Arch = ''x86_64'', OS = ''linux'',
      GitConfig = \<lparr>GitConfig_Name = ''Jane Doe'', GitConfig_Email = ''jane@example.com''\<rparr>\<rparr>"

definition jane_darwin :: System where
  "jane_darwin = jane_linux\<lparr>Arch := ''aarch64'', OS := ''darwin''\<rparr>"

text \<open>The configuration the bootstrap writes for \<open>jane_linux\<close>, and variants of it.\<close>

definition good_Config :: Config where
  "good_Config = sample_Config ''flake'' jane_linux"

definition fish_Config :: Config where
  "fish_Config = good_Config\<lparr>Shell := ''fish''\<rparr>"

text \<open>
  Three systems: the first well-formed, the second with an unknown operating system,
  the third with an unknown architecture.
\<close>

definition two_bad_Config :: Config where
  "two_bad_Config =
     good_Config\<lparr>Systems := [jane_linux, jane_linux\<lparr>OS := ''plan9''\<rparr>,
                               jane_linux\<lparr>Arch := ''riscv''\<rparr>]\<rparr>"

text \<open>A configuration whose lists already hold a name twice, as a hand-edited file can.\<close>

definition dup_Config :: Config where
  "dup_Config =
     good_Config\<lparr>Packages := [''helix'', ''jq'', ''helix''],
                  Programs := [''exa'', ''bat'', ''zoxide'', ''bat'']\<rparr>"

text \<open>A file system that already holds a configuration file at the canonical location.\<close>

definition old_fs :: "string \<rightharpoonup> string" where
  "old_fs = [''/home/jane/flake/.fleek.yml'' \<mapsto> ''shell: zsh'']"

section \<open>Facts about the loops\<close>

lemma isValueInList_set: "isValueInList v xs \<longleftrightarrow> v \<in> set xs"
  by (induction xs) auto

lemma range_found_set: "range_found xs p \<longleftrightarrow> p \<in> set xs"
  by (induction xs) auto

lemma range_index_absent: "p \<notin> set xs \<Longrightarrow> range_index xs p x = (0, False)"
  by (induction xs arbitrary: x) auto

lemma range_index_first:
  "p \<notin> set pre \<Longrightarrow> range_index (pre @ p # post) p x = (x + length pre, True)"
  by (induction pre arbitrary: x) auto

lemma delete_at_first: "delete_at (length pre) (pre @ p # post) = pre @ post"
  by (simp add: delete_at_def)

lemma remove1_first: "p \<notin> set pre \<Longrightarrow> remove1 p (pre @ p # post) = pre @ post"
  by (simp add: remove1_append)

text \<open>\<open>Validate\<close> reads neither the package list nor the program list.\<close>

lemma Validate_Packages: "Validate (c\<lparr>Packages := ps\<rparr>) = Validate c"
  by (simp add: Validate_def)

lemma Validate_Programs: "Validate (c\<lparr>Programs := ps\<rparr>) = Validate c"
  by (simp add: Validate_def)

lemma Validate_systems_valid:
  "Validate_systems ss = None \<longleftrightarrow> list_all valid_System ss"
  by (induction ss)
     (auto simp: valid_System_def isValueInList_set architectures_def operatingSystems_def)

lemma Validate_systems_first:
  "list_all valid_System ok \<Longrightarrow>
   Validate_systems (ok @ sys # rest) =
     (if Arch sys \<notin> {''aarch64'', ''x86_64''} then Some ErrorInvalidArch
      else if OS sys \<notin> {''linux'', ''darwin''} then Some ErrInvalidOperatingSystem
      else Validate_systems rest)"
  by (induction ok)
     (auto simp: valid_System_def isValueInList_set architectures_def operatingSystems_def)

section \<open>Facts about the operations\<close>

text \<open>The definitions that a run on a concrete input unfolds.\<close>

lemmas run_defs =
  good_Config_def fish_Config_def dup_Config_def sample_Config_def jane_linux_def old_fs_def
  err_after_def cfg_after_def fs_after_def
  AddPackage_twice_def AddProgram_twice_def AddPackage_def AddProgram_def
  RemovePackage_def RemoveProgram_def delete_at_def Eject_def WriteSampleConfig_def NewSystem_def
  Validate_def shells_def blingLevels_def architectures_def operatingSystems_def
  Save_def marshal_unmarshal_marshal_def mem_env_def render_def Let_def

text \<open>
  Each mutation, with its search loop resolved.  Since \<open>Validate\<close> does not read the
  list that was changed, its verdict on the changed configuration is its verdict on the
  original one.
\<close>

lemma AddPackage_present:
  "pack \<in> set (Packages c) \<Longrightarrow> AddPackage e pack c fs = (None, c, fs)"
  by (simp add: AddPackage_def range_found_set)

lemma AddPackage_absent:
  "pack \<notin> set (Packages c) \<Longrightarrow>
   AddPackage e pack c fs =
     (let c1 = c\<lparr>Packages := Packages c @ [pack]\<rparr> in
      case Validate c of
        Some err \<Rightarrow> (Some err, c1, fs)
      | None \<Rightarrow> (fst (Save e c1 fs), c1, snd (Save e c1 fs)))"
  by (simp add: AddPackage_def range_found_set Validate_Packages Let_def
      split: option.splits prod.splits)

lemma AddPackage_list:
  "Packages (cfg_after (AddPackage e pack c fs)) =
     (if pack \<in> set (Packages c) then Packages c else Packages c @ [pack])"
  by (simp add: AddPackage_present AddPackage_absent cfg_after_def Let_def
      split: option.splits)

lemma RemovePackage_absent:
  "pack \<notin> set (Packages c) \<Longrightarrow>
   RemovePackage e pack c fs = (Some ErrPackageNotFound, c, fs)"
  by (simp add: RemovePackage_def range_index_absent)

lemma RemoveProgram_absent:
  "prog \<notin> set (Programs c) \<Longrightarrow>
   RemoveProgram e prog c fs = (Some ErrProgramNotFound, c, fs)"
  by (simp add: RemoveProgram_def range_index_absent)

lemma RemovePackage_present:
  "Packages c = pre @ pack # post \<Longrightarrow> pack \<notin> set pre \<Longrightarrow>
   RemovePackage e pack c fs =
     (let c1 = c\<lparr>Packages := pre @ post\<rparr> in
      case Validate c of
        Some err \<Rightarrow> (Some err, c1, fs)
      | None \<Rightarrow> (fst (Save e c1 fs), c1, snd (Save e c1 fs)))"
  by (simp add: RemovePackage_def range_index_first delete_at_first Validate_Packages Let_def
      split: option.splits prod.splits)

lemma RemoveProgram_present:
  "Programs c = pre @ prog # post \<Longrightarrow> prog \<notin> set pre \<Longrightarrow>
   RemoveProgram e prog c fs =
     (let c1 = c\<lparr>Programs := pre @ post\<rparr> in
      case Validate c of
        Some err \<Rightarrow> (Some err, c1, fs)
      | None \<Rightarrow> (fst (Save e c1 fs), c1, snd (Save e c1 fs)))"
  by (simp add: RemoveProgram_def range_index_first delete_at_first Validate_Programs Let_def
      split: option.splits prod.splits)

lemma RemovePackage_remove1:
  assumes "pack \<in> set (Packages c)"
  shows "RemovePackage e pack c fs =
     (let c1 = c\<lparr>Packages := remove1 pack (Packages c)\<rparr> in
      case Validate c of
        Some err \<Rightarrow> (Some err, c1, fs)
      | None \<Rightarrow> (fst (Save e c1 fs), c1, snd (Save e c1 fs)))"
proof -
  from assms obtain pre post where split: "Packages c = pre @ pack # post" "pack \<notin> set pre"
    by (auto dest: split_list_first)
  then have "remove1 pack (Packages c) = pre @ post"
    by (simp add: remove1_first)
  with split show ?thesis
    by (simp add: RemovePackage_present)
qed

lemma RemoveProgram_remove1:
  assumes "prog \<in> set (Programs c)"
  shows "RemoveProgram e prog c fs =
     (let c1 = c\<lparr>Programs := remove1 prog (Programs c)\<rparr> in
      case Validate c of
        Some err \<Rightarrow> (Some err, c1, fs)
      | None \<Rightarrow> (fst (Save e c1 fs), c1, snd (Save e c1 fs)))"
proof -
  from assms obtain pre post where split: "Programs c = pre @ prog # post" "prog \<notin> set pre"
    by (auto dest: split_list_first)
  then have "remove1 prog (Programs c) = pre @ post"
    by (simp add: remove1_first)
  with split show ?thesis
    by (simp add: RemoveProgram_present)
qed

lemma AddProgram_unfold:
  "AddProgram e prog c fs =
     (let c1 = c\<lparr>Programs := Programs c @ [prog]\<rparr> in
      case Validate c of
        Some err \<Rightarrow> (Some err, c1, fs)
      | None \<Rightarrow> (fst (Save e c1 fs), c1, snd (Save e c1 fs)))"
  by (simp add: AddProgram_def Validate_Programs Let_def split: option.splits prod.splits)

lemma AddProgram_list:
  "Programs (cfg_after (AddProgram e prog c fs)) = Programs c @ [prog]"
  by (simp add: AddProgram_unfold cfg_after_def Let_def split: option.splits)

section \<open>Validation\<close>

text \<open>
  Claim C1.  \<open>Validate\<close> returns no error exactly for the configurations whose flake
  directory is non-empty, whose shell is bash or zsh, whose bling is low, default or high,
  and all of whose systems have a known architecture and a known operating system.
  Otherwise it returns one error, that of the first rule violated: the missing flake
  directory before everything else, then the shell, then the bling; then the systems in
  the order of the list, and within the first system that is not well-formed the
  architecture before the operating system.
\<close>

theorem Validate_first_violated_rule:
  "(Validate c = None \<longleftrightarrow> valid_Config c) \<and>
   (FlakeDir c = [] \<longrightarrow> Validate c = Some ErrMissingFlakeDir) \<and>
   (FlakeDir c \<noteq> [] \<and> Shell c \<notin> {''bash'', ''zsh''} \<longrightarrow>
      Validate c = Some ErrInvalidShell) \<and>
   (FlakeDir c \<noteq> [] \<and> Shell c \<in> {''bash'', ''zsh''} \<and>
    Bling c \<notin> {''low'', ''default'', ''high''} \<longrightarrow>
      Validate c = Some ErrInvalidBling) \<and>
   (FlakeDir c \<noteq> [] \<and> Shell c \<in> {''bash'', ''zsh''} \<and>
    Bling c \<in> {''low'', ''default'', ''high''} \<and>
    Systems c = ok @ sys # rest \<and> list_all valid_System ok \<and>
    Arch sys \<notin> {''aarch64'', ''x86_64''} \<longrightarrow>
      Validate c = Some ErrorInvalidArch) \<and>
   (FlakeDir c \<noteq> [] \<and> Shell c \<in> {''bash'', ''zsh''} \<and>
    Bling c \<in> {''low'', ''default'', ''high''} \<and>
    Systems c = ok @ sys # rest \<and> list_all valid_System ok \<and>
    Arch sys \<in> {''aarch64'', ''x86_64''} \<and> OS sys \<notin> {''linux'', ''darwin''} \<longrightarrow>
      Validate c = Some ErrInvalidOperatingSystem)"
proof -
  have globals: "isValueInList (Shell c) shells \<longleftrightarrow> Shell c \<in> {''bash'', ''zsh''}"
    "isValueInList (Bling c) blingLevels \<longleftrightarrow> Bling c \<in> {''low'', ''default'', ''high''}"
    by (simp_all add: isValueInList_set shells_def blingLevels_def)
  have ok: "Validate c = None \<longleftrightarrow> valid_Config c"
    unfolding Validate_def valid_Config_def globals
    by (simp add: Validate_systems_valid)
  have flake: "FlakeDir c = [] \<longrightarrow> Validate c = Some ErrMissingFlakeDir"
    by (simp add: Validate_def)
  have shell: "FlakeDir c \<noteq> [] \<and> Shell c \<notin> {''bash'', ''zsh''} \<longrightarrow>
      Validate c = Some ErrInvalidShell"
    unfolding Validate_def globals by simp
  have bling: "FlakeDir c \<noteq> [] \<and> Shell c \<in> {''bash'', ''zsh''} \<and>
    Bling c \<notin> {''low'', ''default'', ''high''} \<longrightarrow> Validate c = Some ErrInvalidBling"
    unfolding Validate_def globals by simp
  have arch: "FlakeDir c \<noteq> [] \<and> Shell c \<in> {''bash'', ''zsh''} \<and>
    Bling c \<in> {''low'', ''default'', ''high''} \<and>
    Systems c = ok @ sys # rest \<and> list_all valid_System ok \<and>
    Arch sys \<notin> {''aarch64'', ''x86_64''} \<longrightarrow> Validate c = Some ErrorInvalidArch"
    unfolding Validate_def globals by (simp add: Validate_systems_first)
  have os: "FlakeDir c \<noteq> [] \<and> Shell c \<in> {''bash'', ''zsh''} \<and>
    Bling c \<in> {''low'', ''default'', ''high''} \<and>
    Systems c = ok @ sys # rest \<and> list_all valid_System ok \<and>
    Arch sys \<in> {''aarch64'', ''x86_64''} \<and> OS sys \<notin> {''linux'', ''darwin''} \<longrightarrow>
      Validate c = Some ErrInvalidOperatingSystem"
    unfolding Validate_def globals by (simp add: Validate_systems_first)
  from ok flake shell bling arch os show ?thesis by blast
qed

text \<open>
  The rules at work: a well-formed configuration; then configurations with several
  fields wrong at once, each reporting only its first violation.  In \<open>two_bad_Config\<close>
  the operating system of the second system is reported, not the architecture of the
  third.
\<close>

theorem Validate_first_violated_rule_witness:
  "valid_Config good_Config \<and> Validate good_Config = None \<and>
   Validate (good_Config\<lparr>FlakeDir := [], Shell := ''fish'', Bling := ''max''\<rparr>) =
     Some ErrMissingFlakeDir \<and>
   Validate (good_Config\<lparr>Shell := ''fish'', Bling := ''max'',
               Systems := [jane_linux\<lparr>Arch := ''riscv''\<rparr>]\<rparr>) = Some ErrInvalidShell \<and>
   Validate (good_Config\<lparr>Bling := ''max'',
               Systems := [jane_linux\<lparr>Arch := ''riscv''\<rparr>]\<rparr>) = Some ErrInvalidBling \<and>
   Validate (good_Config\<lparr>Systems := [jane_linux,
               jane_linux\<lparr>Arch := ''riscv'', OS := ''plan9''\<rparr>]\<rparr>) = Some ErrorInvalidArch \<and>
   Validate two_bad_Config = Some ErrInvalidOperatingSystem"
  using
    Validate_first_violated_rule [where c = good_Config]
    Validate_first_violated_rule
      [where c = "good_Config\<lparr>FlakeDir := [], Shell := ''fish'', Bling := ''max''\<rparr>"]
    Validate_first_violated_rule
      [where c = "good_Config\<lparr>Shell := ''fish'', Bling := ''max'',
                    Systems := [jane_linux\<lparr>Arch := ''riscv''\<rparr>]\<rparr>"]
    Validate_first_violated_rule
      [where c = "good_Config\<lparr>Bling := ''max'',
                    Systems := [jane_linux\<lparr>Arch := ''riscv''\<rparr>]\<rparr>"]
    Validate_first_violated_rule
      [where c = "good_Config\<lparr>Systems := [jane_linux,
                    jane_linux\<lparr>Arch := ''riscv'', OS := ''plan9''\<rparr>]\<rparr>"
         and ok = "[jane_linux]" and sys = "jane_linux\<lparr>Arch := ''riscv'', OS := ''plan9''\<rparr>"
         and rest = "[]"]
    Validate_first_violated_rule
      [where c = two_bad_Config and ok = "[jane_linux]"
         and sys = "jane_linux\<lparr>OS := ''plan9''\<rparr>"
         and rest = "[jane_linux\<lparr>Arch := ''riscv''\<rparr>]"]
  by (simp add: two_bad_Config_def good_Config_def sample_Config_def jane_linux_def
      valid_Config_def valid_System_def)

section \<open>Home directory\<close>

text \<open>
  Claim C9.  \<open>HomeDir\<close> is \<open>/Users/\<close> followed by the user name when the operating
  system of the record is \<open>darwin\<close>, and \<open>/home/\<close> followed by the user name for every
  other value.
\<close>

theorem HomeDir_by_OS:
  "(OS s = ''darwin'' \<longrightarrow> HomeDir s = ''/Users/'' @ Username s) \<and>
   (OS s \<noteq> ''darwin'' \<longrightarrow> HomeDir s = ''/home/'' @ Username s)"
  by (simp add: HomeDir_def)

theorem HomeDir_by_OS_witness:
  "OS jane_darwin = ''darwin'' \<and> HomeDir jane_darwin = ''/Users/jane'' \<and>
   OS jane_linux \<noteq> ''darwin'' \<and> HomeDir jane_linux = ''/home/jane''"
  using HomeDir_by_OS [of jane_darwin] HomeDir_by_OS [of jane_linux]
  by (simp add: jane_darwin_def jane_linux_def)

section \<open>Adding a package\<close>

text \<open>
  Claim C2, as the code has it.  \<open>AddPackage\<close> with a name that is already in the
  package list returns no error and leaves the configuration and the file system as they
  were, whether or not the configuration is well-formed: nothing is changed, validated or
  written.  So the second of two calls with the same name always does nothing, and two
  calls with a name that was not in the list leave the list exactly one element longer,
  the name appended once.  With a name that was in the list from the start, the list is
  as long as before.
\<close>

theorem AddPackage_idempotent:
  "(pack \<in> set (Packages c) \<longrightarrow> AddPackage e pack c fs = (None, c, fs)) \<and>
   (pack \<notin> set (Packages c) \<longrightarrow>
      Packages (cfg_after (AddPackage_twice e pack c fs)) = Packages c @ [pack] \<and>
      length (Packages (cfg_after (AddPackage_twice e pack c fs))) =
        length (Packages c) + 1) \<and>
   AddPackage_twice e pack c fs =
     (None, cfg_after (AddPackage e pack c fs), fs_after (AddPackage e pack c fs))"
proof -
  obtain r1 c1 fs1 where first: "AddPackage e pack c fs = (r1, c1, fs1)"
    by (cases "AddPackage e pack c fs") auto
  have c1: "Packages c1 = (if pack \<in> set (Packages c) then Packages c else Packages c @ [pack])"
    using AddPackage_list [of e pack c fs] first by (simp add: cfg_after_def)
  then have "pack \<in> set (Packages c1)" by simp
  then have second: "AddPackage e pack c1 fs1 = (None, c1, fs1)"
    by (rule AddPackage_present)
  have twice: "AddPackage_twice e pack c fs = (None, c1, fs1)"
    by (simp add: AddPackage_twice_def first second)
  have present: "pack \<in> set (Packages c) \<longrightarrow> AddPackage e pack c fs = (None, c, fs)"
    by (simp add: AddPackage_present)
  have absent: "pack \<notin> set (Packages c) \<longrightarrow>
      Packages (cfg_after (AddPackage_twice e pack c fs)) = Packages c @ [pack] \<and>
      length (Packages (cfg_after (AddPackage_twice e pack c fs))) = length (Packages c) + 1"
    using c1 by (simp add: twice cfg_after_def)
  have noop: "AddPackage_twice e pack c fs =
     (None, cfg_after (AddPackage e pack c fs), fs_after (AddPackage e pack c fs))"
    by (simp add: twice first cfg_after_def fs_after_def)
  from present absent noop show ?thesis by blast
qed

theorem AddPackage_idempotent_witness:
  "''helix'' \<in> set (Packages good_Config) \<and>
   AddPackage mem_env ''helix'' good_Config Map.empty = (None, good_Config, Map.empty) \<and>
   ''htop'' \<notin> set (Packages good_Config) \<and>
   Packages (cfg_after (AddPackage_twice mem_env ''htop'' good_Config Map.empty)) =
     [''helix'', ''htop''] \<and>
   err_after (AddPackage_twice mem_env ''htop'' good_Config Map.empty) = None"
  using
    AddPackage_idempotent [where pack = "''helix''" and c = good_Config and e = mem_env
      and fs = Map.empty]
    AddPackage_idempotent [where pack = "''htop''" and c = good_Config and e = mem_env
      and fs = Map.empty]
  by (simp add: run_defs)

text \<open>
  Claim C2 as it is worded, for every configuration, fails where the name is in the list
  from the start: \<open>good_Config\<close> holds the package \<open>helix\<close>, and after two calls of
  \<open>AddPackage\<close> with \<open>helix\<close> its package list is not one element longer.
\<close>

theorem AddPackage_twice_present_counterexample:
  "''helix'' \<in> set (Packages good_Config) \<and>
   length (Packages (cfg_after (AddPackage_twice mem_env ''helix'' good_Config Map.empty)))
     \<noteq> length (Packages good_Config) + 1"
  by (simp add: run_defs)

section \<open>No rollback\<close>

text \<open>
  Claim C3.  When validation fails on the configuration a mutation has just changed, the
  mutation returns that validation error, writes nothing, and hands back the changed
  configuration: \<open>AddPackage\<close> with a name not yet in the list keeps the name appended,
  \<open>RemovePackage\<close> and \<open>RemoveProgram\<close> with a name in the list keep its first
  occurrence removed (a list different from the original), and \<open>AddProgram\<close> keeps the
  name appended.
\<close>

theorem mutation_not_rolled_back:
  "(pack \<notin> set (Packages c) \<and>
    Validate (c\<lparr>Packages := Packages c @ [pack]\<rparr>) = Some err \<longrightarrow>
      AddPackage e pack c fs = (Some err, c\<lparr>Packages := Packages c @ [pack]\<rparr>, fs)) \<and>
   (pack \<in> set (Packages c) \<and>
    Validate (c\<lparr>Packages := remove1 pack (Packages c)\<rparr>) = Some err \<longrightarrow>
      RemovePackage e pack c fs =
        (Some err, c\<lparr>Packages := remove1 pack (Packages c)\<rparr>, fs) \<and>
      remove1 pack (Packages c) \<noteq> Packages c) \<and>
   (prog \<in> set (Programs c) \<and>
    Validate (c\<lparr>Programs := remove1 prog (Programs c)\<rparr>) = Some err \<longrightarrow>
      RemoveProgram e prog c fs =
        (Some err, c\<lparr>Programs := remove1 prog (Programs c)\<rparr>, fs) \<and>
      remove1 prog (Programs c) \<noteq> Programs c) \<and>
   (Validate (c\<lparr>Programs := Programs c @ [prog]\<rparr>) = Some err \<longrightarrow>
      AddProgram e prog c fs = (Some err, c\<lparr>Programs := Programs c @ [prog]\<rparr>, fs))"
proof -
  have shorter: "x \<in> set xs \<Longrightarrow> remove1 x xs \<noteq> xs" for x :: string and xs
    using length_remove1 [of x xs] by (cases xs) auto
  have addpkg: "pack \<notin> set (Packages c) \<and>
    Validate (c\<lparr>Packages := Packages c @ [pack]\<rparr>) = Some err \<longrightarrow>
      AddPackage e pack c fs = (Some err, c\<lparr>Packages := Packages c @ [pack]\<rparr>, fs)"
    by (simp add: AddPackage_absent Validate_Packages)
  have rmpkg: "pack \<in> set (Packages c) \<and>
    Validate (c\<lparr>Packages := remove1 pack (Packages c)\<rparr>) = Some err \<longrightarrow>
      RemovePackage e pack c fs =
        (Some err, c\<lparr>Packages := remove1 pack (Packages c)\<rparr>, fs) \<and>
      remove1 pack (Packages c) \<noteq> Packages c"
    by (simp add: RemovePackage_remove1 Validate_Packages shorter)
  have rmprog: "prog \<in> set (Programs c) \<and>
    Validate (c\<lparr>Programs := remove1 prog (Programs c)\<rparr>) = Some err \<longrightarrow>
      RemoveProgram e prog c fs =
        (Some err, c\<lparr>Programs := remove1 prog (Programs c)\<rparr>, fs) \<and>
      remove1 prog (Programs c) \<noteq> Programs c"
    by (simp add: RemoveProgram_remove1 Validate_Programs shorter)
  have addprog: "Validate (c\<lparr>Programs := Programs c @ [prog]\<rparr>) = Some err \<longrightarrow>
      AddProgram e prog c fs = (Some err, c\<lparr>Programs := Programs c @ [prog]\<rparr>, fs)"
    by (simp add: AddProgram_unfold Validate_Programs)
  from addpkg rmpkg rmprog addprog show ?thesis by blast
qed

theorem mutation_not_rolled_back_witness:
  "Validate fish_Config = Some ErrInvalidShell \<and>
   AddPackage mem_env ''htop'' fish_Config Map.empty =
     (Some ErrInvalidShell, fish_Config\<lparr>Packages := [''helix'', ''htop'']\<rparr>, Map.empty) \<and>
   RemovePackage mem_env ''helix'' fish_Config Map.empty =
     (Some ErrInvalidShell, fish_Config\<lparr>Packages := []\<rparr>, Map.empty) \<and>
   RemoveProgram mem_env ''dircolors'' fish_Config Map.empty =
     (Some ErrInvalidShell, fish_Config\<lparr>Programs := []\<rparr>, Map.empty) \<and>
   AddProgram mem_env ''bat'' fish_Config Map.empty =
     (Some ErrInvalidShell, fish_Config\<lparr>Programs := [''dircolors'', ''bat'']\<rparr>, Map.empty)"
  using
    mutation_not_rolled_back [where c = fish_Config and pack = "''htop''"
      and prog = "''bat''" and err = ErrInvalidShell and e = mem_env and fs = Map.empty]
    mutation_not_rolled_back [where c = fish_Config and pack = "''helix''"
      and prog = "''dircolors''" and err = ErrInvalidShell and e = mem_env and fs = Map.empty]
  by (simp add: fish_Config_def good_Config_def sample_Config_def Validate_def shells_def Let_def)

section \<open>Duplicate names\<close>

text \<open>
  Three of the four mutations keep both lists free of duplicates, whatever they return:
  \<open>AddPackage\<close> appends only a name that is not there, and the removals only take an
  element away.  \<open>AddProgram\<close> leaves the package list alone.
\<close>

lemma other_mutations_keep_distinct:
  assumes "distinct (Packages c)" and "distinct (Programs c)"
  shows "distinct (Packages (cfg_after (AddPackage e pack c fs))) \<and>
         distinct (Programs (cfg_after (AddPackage e pack c fs))) \<and>
         distinct (Packages (cfg_after (RemovePackage e pack c fs))) \<and>
         distinct (Programs (cfg_after (RemovePackage e pack c fs))) \<and>
         distinct (Packages (cfg_after (RemoveProgram e prog c fs))) \<and>
         distinct (Programs (cfg_after (RemoveProgram e prog c fs))) \<and>
         distinct (Packages (cfg_after (AddProgram e prog c fs)))"
proof -
  have addpkg: "distinct (Packages (cfg_after (AddPackage e pack c fs))) \<and>
         distinct (Programs (cfg_after (AddPackage e pack c fs)))"
    using assms
    by (cases "pack \<in> set (Packages c)")
       (simp_all add: AddPackage_present AddPackage_absent cfg_after_def Let_def
          split: option.splits)
  have rmpkg: "distinct (Packages (cfg_after (RemovePackage e pack c fs))) \<and>
         distinct (Programs (cfg_after (RemovePackage e pack c fs)))"
    using assms
    by (cases "pack \<in> set (Packages c)")
       (simp_all add: RemovePackage_remove1 RemovePackage_absent cfg_after_def Let_def
          split: option.splits)
  have rmprog: "distinct (Packages (cfg_after (RemoveProgram e prog c fs))) \<and>
         distinct (Programs (cfg_after (RemoveProgram e prog c fs)))"
    using assms
    by (cases "prog \<in> set (Programs c)")
       (simp_all add: RemoveProgram_remove1 RemoveProgram_absent cfg_after_def Let_def
          split: option.splits)
  have addprog: "distinct (Packages (cfg_after (AddProgram e prog c fs)))"
    using assms by (simp add: AddProgram_unfold cfg_after_def Let_def split: option.splits)
  from addpkg rmpkg rmprog addprog show ?thesis by blast
qed

text \<open>
  Claim C4 asks the same of \<open>AddProgram\<close>, which has no search loop like the one of
  \<open>AddPackage\<close>.  On \<open>good_Config\<close>, whose lists have no duplicates and which
  validates, \<open>AddProgram\<close> with the program \<open>dircolors\<close> it already holds succeeds and
  leaves the name twice in the program list.
\<close>

theorem AddProgram_breaks_distinct:
  "distinct (Packages good_Config) \<and> distinct (Programs good_Config) \<and>
   err_after (AddProgram mem_env ''dircolors'' good_Config Map.empty) = None \<and>
   Programs (cfg_after (AddProgram mem_env ''dircolors'' good_Config Map.empty)) =
     [''dircolors'', ''dircolors''] \<and>
   \<not> distinct (Programs (cfg_after (AddProgram mem_env ''dircolors'' good_Config Map.empty)))"
  by (simp add: run_defs)

section \<open>Adding a program\<close>

text \<open>
  Claim C5.  \<open>AddProgram\<close> appends the name without looking for it, whether validation
  and the write then succeed or not.  Two calls with the same name append it twice: the
  program list ends with two entries of that name, the name occurs two times more than
  before (two times in all when it was not there), and the list after two calls is not
  the list after one.  On a configuration
  that validates neither call is stopped before the write: what a call returns is what
  \<open>Save\<close> returns.
\<close>

theorem AddProgram_twice_appends_twice:
  "Programs (cfg_after (AddProgram e prog c fs)) = Programs c @ [prog] \<and>
   Programs (cfg_after (AddProgram_twice e prog c fs)) = Programs c @ [prog, prog] \<and>
   count_list (Programs (cfg_after (AddProgram_twice e prog c fs))) prog =
     count_list (Programs c) prog + 2 \<and>
   (prog \<notin> set (Programs c) \<longrightarrow>
      count_list (Programs (cfg_after (AddProgram_twice e prog c fs))) prog = 2) \<and>
   Programs (cfg_after (AddProgram_twice e prog c fs)) \<noteq>
     Programs (cfg_after (AddProgram e prog c fs)) \<and>
   (Validate c = None \<longrightarrow>
      AddProgram e prog c fs =
        (fst (Save e (c\<lparr>Programs := Programs c @ [prog]\<rparr>) fs),
         c\<lparr>Programs := Programs c @ [prog]\<rparr>,
         snd (Save e (c\<lparr>Programs := Programs c @ [prog]\<rparr>) fs)))"
proof -
  obtain r1 c1 fs1 where first: "AddProgram e prog c fs = (r1, c1, fs1)"
    by (cases "AddProgram e prog c fs") auto
  have once: "Programs (cfg_after (AddProgram e prog c fs)) = Programs c @ [prog]"
    by (rule AddProgram_list)
  then have c1: "Programs c1 = Programs c @ [prog]"
    by (simp add: first cfg_after_def)
  have "Programs (cfg_after (AddProgram e prog c1 fs1)) = Programs c1 @ [prog]"
    by (rule AddProgram_list)
  then have twice: "Programs (cfg_after (AddProgram_twice e prog c fs)) = Programs c @ [prog, prog]"
    by (simp add: AddProgram_twice_def first c1)
  have count: "count_list (Programs (cfg_after (AddProgram_twice e prog c fs))) prog =
     count_list (Programs c) prog + 2"
    by (simp add: twice)
  have fresh: "prog \<notin> set (Programs c) \<longrightarrow>
      count_list (Programs (cfg_after (AddProgram_twice e prog c fs))) prog = 2"
    by (simp add: twice count_list_0_iff)
  have differ: "Programs (cfg_after (AddProgram_twice e prog c fs)) \<noteq>
     Programs (cfg_after (AddProgram e prog c fs))"
    by (simp add: twice once)
  have valid: "Validate c = None \<longrightarrow>
      AddProgram e prog c fs =
        (fst (Save e (c\<lparr>Programs := Programs c @ [prog]\<rparr>) fs),
         c\<lparr>Programs := Programs c @ [prog]\<rparr>,
         snd (Save e (c\<lparr>Programs := Programs c @ [prog]\<rparr>) fs))"
    by (simp add: AddProgram_unfold Let_def)
  from once twice count fresh differ valid show ?thesis by blast
qed

theorem AddProgram_twice_appends_twice_witness:
  "Validate good_Config = None \<and> ''bat'' \<notin> set (Programs good_Config) \<and>
   AddProgram_twice mem_env ''bat'' good_Config Map.empty =
     (None, good_Config\<lparr>Programs := [''dircolors'', ''bat'', ''bat'']\<rparr>,
      [''/home/jane/flake/.fleek.yml'' \<mapsto>
         render (good_Config\<lparr>Programs := [''dircolors'', ''bat'', ''bat'']\<rparr>)]) \<and>
   count_list (Programs (cfg_after (AddProgram_twice mem_env ''bat'' good_Config Map.empty)))
     ''bat'' = 2"
  using AddProgram_twice_appends_twice [where e = mem_env and prog = "''bat''"
      and c = good_Config and fs = Map.empty]
  by (simp add: run_defs)

section \<open>Removing\<close>

text \<open>
  Claim C6.  \<open>RemovePackage\<close> with a name that is not in the package list returns
  \<open>ErrPackageNotFound\<close>, and \<open>RemoveProgram\<close> with a name that is not in the program
  list returns \<open>ErrProgramNotFound\<close>; either leaves the configuration and the file
  system as they were, whether or not the configuration is well-formed.
\<close>

theorem Remove_absent:
  "(pack \<notin> set (Packages c) \<longrightarrow>
      RemovePackage e pack c fs = (Some ErrPackageNotFound, c, fs)) \<and>
   (prog \<notin> set (Programs c) \<longrightarrow>
      RemoveProgram e prog c fs = (Some ErrProgramNotFound, c, fs))"
  by (simp add: RemovePackage_absent RemoveProgram_absent)

theorem Remove_absent_witness:
  "''htop'' \<notin> set (Packages good_Config) \<and>
   RemovePackage mem_env ''htop'' good_Config Map.empty =
     (Some ErrPackageNotFound, good_Config, Map.empty) \<and>
   ''starship'' \<notin> set (Programs good_Config) \<and>
   RemoveProgram mem_env ''starship'' good_Config Map.empty =
     (Some ErrProgramNotFound, good_Config, Map.empty)"
  using Remove_absent [where pack = "''htop''" and prog = "''starship''" and c = good_Config
      and e = mem_env and fs = Map.empty]
  by (simp add: good_Config_def sample_Config_def)

text \<open>
  Claim C10.  When the name occurs in the list, \<open>RemoveProgram\<close> takes out its first
  occurrence only: with the program list split at that occurrence into what stands before
  it (where the name does not occur) and what stands after it, the list afterwards is the
  two parts joined, so every later occurrence stays, in place.  \<open>RemovePackage\<close> does the
  same on the package list.  This is so whatever validation and the write then return.
\<close>

theorem Remove_first_occurrence:
  "(Programs c = pre @ prog # post \<and> prog \<notin> set pre \<longrightarrow>
      Programs (cfg_after (RemoveProgram e prog c fs)) = pre @ post) \<and>
   (Packages c = pre' @ pack # post' \<and> pack \<notin> set pre' \<longrightarrow>
      Packages (cfg_after (RemovePackage e pack c fs)) = pre' @ post')"
  by (simp add: RemoveProgram_present RemovePackage_present cfg_after_def Let_def
      split: option.splits)

theorem Remove_first_occurrence_witness:
  "Programs dup_Config = [''exa'', ''bat'', ''zoxide'', ''bat''] \<and>
   Programs (cfg_after (RemoveProgram mem_env ''bat'' dup_Config Map.empty)) =
     [''exa'', ''zoxide'', ''bat''] \<and>
   Packages dup_Config = [''helix'', ''jq'', ''helix''] \<and>
   Packages (cfg_after (RemovePackage mem_env ''helix'' dup_Config Map.empty)) =
     [''jq'', ''helix'']"
  using Remove_first_occurrence [where c = dup_Config and prog = "''bat''"
      and pre = "[''exa'']" and post = "[''zoxide'', ''bat'']"
      and pack = "''helix''" and pre' = "[]" and post' = "[''jq'', ''helix'']"
      and e = mem_env and fs = Map.empty]
  by (simp add: run_defs)

section \<open>Eject\<close>

text \<open>
  Claim C7, as the code has it.  \<open>Eject\<close> always sets \<open>Ejected\<close>, and it returns no
  error whenever the location is resolved, the three serialisation calls succeed and
  \<open>os.WriteFile\<close> succeeds: no field of the configuration is checked, so an unknown shell
  does not stop it.  \<open>AddPackage\<close> with a name not yet in the list is stopped by
  validation on a configuration with an unknown shell, and nothing is written: it returns
  the invalid-shell error when the flake directory is non-empty, and the
  missing-flake-directory error, whatever the shell, when the flake directory is empty.
\<close>

theorem Eject_skips_validation:
  "Ejected (cfg_after (Eject e c fs)) \<and>
   (cfg_Location e (c\<lparr>Ejected := True\<rparr>) = Inr cfile \<and>
    marshal_unmarshal_marshal e (c\<lparr>Ejected := True\<rparr>) = Inr n \<and>
    os_WriteFile e cfile n 493 fs = (None, fs1) \<longrightarrow>
      Eject e c fs = (None, c\<lparr>Ejected := True\<rparr>, fs1)) \<and>
   (FlakeDir c \<noteq> [] \<and> Shell c \<notin> {''bash'', ''zsh''} \<and> pack \<notin> set (Packages c) \<longrightarrow>
      AddPackage e pack c fs =
        (Some ErrInvalidShell, c\<lparr>Packages := Packages c @ [pack]\<rparr>, fs)) \<and>
   (FlakeDir c = [] \<and> pack \<notin> set (Packages c) \<longrightarrow>
      AddPackage e pack c fs =
        (Some ErrMissingFlakeDir, c\<lparr>Packages := Packages c @ [pack]\<rparr>, fs))"
proof -
  have ejected: "Ejected (cfg_after (Eject e c fs))"
    by (simp add: Eject_def cfg_after_def Let_def split: sum.splits option.splits prod.splits)
  have written: "cfg_Location e (c\<lparr>Ejected := True\<rparr>) = Inr cfile \<and>
    marshal_unmarshal_marshal e (c\<lparr>Ejected := True\<rparr>) = Inr n \<and>
    os_WriteFile e cfile n 493 fs = (None, fs1) \<longrightarrow>
      Eject e c fs = (None, c\<lparr>Ejected := True\<rparr>, fs1)"
    by (simp add: Eject_def Let_def)
  have shell: "FlakeDir c \<noteq> [] \<and> Shell c \<notin> {''bash'', ''zsh''} \<and>
    pack \<notin> set (Packages c) \<longrightarrow>
      AddPackage e pack c fs =
        (Some ErrInvalidShell, c\<lparr>Packages := Packages c @ [pack]\<rparr>, fs)"
    by (simp add: AddPackage_absent Let_def Validate_def isValueInList_set shells_def)
  have flake: "FlakeDir c = [] \<and> pack \<notin> set (Packages c) \<longrightarrow>
      AddPackage e pack c fs =
        (Some ErrMissingFlakeDir, c\<lparr>Packages := Packages c @ [pack]\<rparr>, fs)"
    by (simp add: AddPackage_absent Let_def Validate_def)
  from ejected written shell flake show ?thesis by blast
qed

theorem Eject_skips_validation_witness:
  "Shell fish_Config \<notin> {''bash'', ''zsh''} \<and>
   Eject mem_env fish_Config Map.empty =
     (None, fish_Config\<lparr>Ejected := True\<rparr>,
      [''/home/jane/flake/.fleek.yml'' \<mapsto> render (fish_Config\<lparr>Ejected := True\<rparr>)]) \<and>
   AddPackage mem_env ''htop'' fish_Config Map.empty =
     (Some ErrInvalidShell, fish_Config\<lparr>Packages := [''helix'', ''htop'']\<rparr>, Map.empty) \<and>
   AddPackage mem_env ''htop'' (fish_Config\<lparr>FlakeDir := []\<rparr>) Map.empty =
     (Some ErrMissingFlakeDir, fish_Config\<lparr>FlakeDir := [], Packages := [''helix'', ''htop'']\<rparr>,
      Map.empty)"
  using
    Eject_skips_validation [where e = mem_env and c = fish_Config and fs = Map.empty
      and pack = "''htop''" and cfile = "''/home/jane/flake/.fleek.yml''"
      and n = "render (fish_Config\<lparr>Ejected := True\<rparr>)"
      and ?fs1.0 = "[''/home/jane/flake/.fleek.yml'' \<mapsto> render (fish_Config\<lparr>Ejected := True\<rparr>)]"]
    Eject_skips_validation [where e = mem_env and c = "fish_Config\<lparr>FlakeDir := []\<rparr>"
      and fs = Map.empty and pack = "''htop''"]
  by (simp add: run_defs)

text \<open>
  Claim C7 as it is worded, the invalid-shell error under every configuration with an
  unknown shell, fails where the flake directory is empty as well: the flake directory is
  checked first, and \<open>AddPackage\<close> returns another error than the invalid-shell one.
\<close>

theorem AddPackage_invalid_shell_counterexample:
  "Shell (fish_Config\<lparr>FlakeDir := []\<rparr>) \<notin> {''bash'', ''zsh''} \<and>
   ''htop'' \<notin> set (Packages (fish_Config\<lparr>FlakeDir := []\<rparr>)) \<and>
   err_after (AddPackage mem_env ''htop'' (fish_Config\<lparr>FlakeDir := []\<rparr>) Map.empty) \<noteq>
     Some ErrInvalidShell"
  by (simp add: run_defs)

section \<open>Bootstrap\<close>

text \<open>
  Claim C8.  Let the system identity be resolved, the canonical location be resolved to
  \<open>cfile\<close>, and the flake directory be made, leaving the file system \<open>fs1\<close>.  If
  \<open>os.Stat\<close> then does not report \<open>cfile\<close> as missing (as when a file is there),
  \<open>WriteSampleConfig\<close> without the force flag returns the refuse-to-overwrite error and
  the file system it leaves is \<open>fs1\<close>: nothing is created, written or linked.  So the
  file reads as it did before the call, provided making the flake directory did not
  change it.
\<close>

theorem WriteSampleConfig_refuses_overwrite:
  assumes identity: "NewSystem e name email = Inr sys"
    and location: "cfg_Location e (sample_Config location sys) = Inr cfile"
    and flakedir: "cfg_MakeFlakeDir e (sample_Config location sys) fs = (None, fs1)"
    and present: "os_Stat e cfile fs1 \<noteq> Some ErrNotExist"
  shows "WriteSampleConfig e location email name False fs = (Some ErrRefuseOverwrite, fs1) \<and>
         (os_ReadFile e cfile fs1 = os_ReadFile e cfile fs \<longrightarrow>
            os_ReadFile e cfile (snd (WriteSampleConfig e location email name False fs)) =
              os_ReadFile e cfile fs)"
proof -
  have absent: "\<not> errors_Is (os_Stat e cfile fs1) ErrNotExist"
    using present by (cases "os_Stat e cfile fs1") auto
  have "WriteSampleConfig e location email name False fs = (Some ErrRefuseOverwrite, fs1)"
    using identity location flakedir absent
    by (simp add: WriteSampleConfig_def Let_def)
  then show ?thesis by simp
qed

theorem WriteSampleConfig_refuses_overwrite_witness:
  "os_Stat mem_env ''/home/jane/flake/.fleek.yml'' old_fs = None \<and>
   os_ReadFile mem_env ''/home/jane/flake/.fleek.yml'' old_fs = Inr ''shell: zsh'' \<and>
   WriteSampleConfig mem_env ''flake'' ''jane@example.com'' ''Jane Doe'' False old_fs =
     (Some ErrRefuseOverwrite, old_fs) \<and>
   os_ReadFile mem_env ''/home/jane/flake/.fleek.yml''
     (snd (WriteSampleConfig mem_env ''flake'' ''jane@example.com'' ''Jane Doe'' False old_fs)) =
     Inr ''shell: zsh''"
proof -
  have identity: "NewSystem mem_env ''Jane Doe'' ''jane@example.com'' = Inr jane_linux"
    by (simp add: NewSystem_def mem_env_def jane_linux_def)
  have location: "cfg_Location mem_env (sample_Config ''flake'' jane_linux) =
      Inr ''/home/jane/flake/.fleek.yml''"
    by (simp add: mem_env_def sample_Config_def)
  have flakedir: "cfg_MakeFlakeDir mem_env (sample_Config ''flake'' jane_linux) old_fs =
      (None, old_fs)"
    by (simp add: mem_env_def)
  have present: "os_Stat mem_env ''/home/jane/flake/.fleek.yml'' old_fs \<noteq> Some ErrNotExist"
    by (simp add: mem_env_def old_fs_def)
  have stat: "os_Stat mem_env ''/home/jane/flake/.fleek.yml'' old_fs = None"
    by (simp add: mem_env_def old_fs_def)
  have content: "os_ReadFile mem_env ''/home/jane/flake/.fleek.yml'' old_fs = Inr ''shell: zsh''"
    by (simp add: mem_env_def old_fs_def)
  from WriteSampleConfig_refuses_overwrite [OF identity location flakedir present] stat content
  show ?thesis by simp
qed

end
